theory Spec2Isabelle
  imports Complex_Main "HOL-Library.Log_Nat"
begin

section \<open>Geometry core of the bench drawing generators\<close>

text \<open>
  The development embeds the geometric engine shared by \<^verbatim>\<open>svg_bench_drawer.py\<close> and
  \<^verbatim>\<open>bench_3d_viewer.py\<close>.  Coordinates are Python floats in the source.  The record
  types are polymorphic in the number type, and the functions that only add, multiply and
  compare are written against the bare operations (no algebraic law is assumed), so the
  same definition can be read over the reals and over binary64 numbers.  Functions that
  call \<^verbatim>\<open>math.cos\<close>, \<^verbatim>\<open>math.sin\<close>, \<^verbatim>\<open>math.sqrt\<close> or
  \<^verbatim>\<open>math.atan2\<close> are read over the reals.
\<close>

subsection \<open>Point3D\<close>

record 'a point3d =
  p_x :: 'a
  p_y :: 'a
  p_z :: 'a

definition Point3D :: "'a \<Rightarrow> 'a \<Rightarrow> 'a \<Rightarrow> 'a point3d" where
  "Point3D a b c = \<lparr>p_x = a, p_y = b, p_z = c\<rparr>"

definition rotate_y :: "real point3d \<Rightarrow> real \<Rightarrow> real point3d" where
  "rotate_y self angle_rad =
     (let cos_a = cos angle_rad;
          sin_a = sin angle_rad
      in Point3D (p_x self * cos_a + p_z self * sin_a)
                 (p_y self)
                 (- p_x self * sin_a + p_z self * cos_a))"

definition rotate_x :: "real point3d \<Rightarrow> real \<Rightarrow> real point3d" where
  "rotate_x self angle_rad =
     (let cos_a = cos angle_rad;
          sin_a = sin angle_rad
      in Point3D (p_x self)
                 (p_y self * cos_a - p_z self * sin_a)
                 (p_y self * sin_a + p_z self * cos_a))"

definition translate :: "'a::plus point3d \<Rightarrow> 'a \<Rightarrow> 'a \<Rightarrow> 'a \<Rightarrow> 'a point3d" where
  "translate self dx dy dz = Point3D (p_x self + dx) (p_y self + dy) (p_z self + dz)"

text \<open>\<^verbatim>\<open>math.radians\<close>: degrees to radians.\<close>

definition radians :: "real \<Rightarrow> real" where
  "radians deg = deg * (pi / 180)"

definition to_isometric :: "real point3d \<Rightarrow> real \<Rightarrow> real \<times> real" where
  "to_isometric self scale =
     (let p = rotate_y self (radians 45);
          p = rotate_x p (radians 35.264)
      in (p_x p * scale, - p_y p * scale))"

subsection \<open>Panel\<close>

record 'a panel =
  name :: string
  width :: 'a
  depth :: 'a
  thickness :: 'a
  position :: "'a point3d"
  holes :: "'a point3d list"
  material :: string

definition get_corners :: "'a::plus panel \<Rightarrow> 'a point3d list" where
  "get_corners self =
     (let x = p_x (position self); y = p_y (position self); z = p_z (position self);
          w = width self; d = depth self; t = thickness self
      in [Point3D x y z,
          Point3D (x + w) y z,
          Point3D (x + w) (y + d) z,
          Point3D x (y + d) z,
          Point3D x y (z + t),
          Point3D (x + w) y (z + t),
          Point3D (x + w) (y + d) (z + t),
          Point3D x (y + d) (z + t)])"

subsection \<open>Box mesh of the 3D viewer\<close>

text \<open>
  The dictionary returned by \<^verbatim>\<open>create_box_mesh\<close>.  The key \<^verbatim>\<open>'name'\<close> is absent
  from the returned dictionary and is set by the callers, hence an option.  The numpy
  array \<^verbatim>\<open>vertices\<close> (8 rows, 3 columns) is a list of rows.
\<close>

record 'a mesh =
  mesh_x :: "'a list"
  mesh_y :: "'a list"
  mesh_z :: "'a list"
  mesh_i :: "nat list"
  mesh_j :: "nat list"
  mesh_k :: "nat list"
  mesh_color :: string
  mesh_vertices :: "'a list list"
  mesh_name :: "string option"

definition column :: "nat \<Rightarrow> 'a list list \<Rightarrow> 'a list" where
  "column c rows = map (\<lambda>r. r ! c) rows"

definition create_box_mesh ::
  "'a::plus \<Rightarrow> 'a \<Rightarrow> 'a \<Rightarrow> 'a \<Rightarrow> 'a \<Rightarrow> 'a \<Rightarrow> string \<Rightarrow> 'a mesh" where
  "create_box_mesh x y z wd dp th color =
     (let vertices =
            [[x, y, z],
             [x + wd, y, z],
             [x + wd, y + dp, z],
             [x, y + dp, z],
             [x, y, z + th],
             [x + wd, y, z + th],
             [x + wd, y + dp, z + th],
             [x, y + dp, z + th]];
          i = [0, 0, 1, 1, 2, 2, 3, 3, 4, 4, 5, 5,
               0, 0, 1, 1, 4, 4, 5, 5, 2, 2, 3, 3];
          j = [1, 1, 2, 2, 3, 3, 0, 0, 5, 5, 6, 6,
               4, 4, 5, 5, 7, 7, 6, 6, 6, 6, 7, 7];
          k = [4, 2, 5, 6, 6, 7, 7, 4, 6, 7, 7, 4,
               1, 3, 0, 2, 3, 0, 1, 4, 3, 7, 0, 4]
      in \<lparr>mesh_x = column 0 vertices,
          mesh_y = column 1 vertices,
          mesh_z = column 2 vertices,
          mesh_i = i, mesh_j = j, mesh_k = k,
          mesh_color = color,
          mesh_vertices = vertices,
          mesh_name = None\<rparr>)"

text \<open>The index triples read off the three parallel arrays.\<close>

definition triangles :: "'a mesh \<Rightarrow> (nat \<times> nat \<times> nat) list" where
  "triangles m = zip (mesh_i m) (zip (mesh_j m) (mesh_k m))"

text \<open>A point as a row of three coordinates, as numpy stores it.\<close>

definition row_of :: "'a point3d \<Rightarrow> 'a list" where
  "row_of p = [p_x p, p_y p, p_z p]"

subsection \<open>The standard rotation matrices\<close>

text \<open>
  The right-handed rotations about the Y and the X axis as the textbook matrices, applied
  to a column vector.  These follow the wording of the specification and are compared
  with \<open>rotate_y\<close> and \<open>rotate_x\<close> below.
\<close>

type_synonym mat3 = "real list list"

definition std_rot_y :: "real \<Rightarrow> mat3" where
  "std_rot_y a = [[cos a, 0, sin a],
                  [0, 1, 0],
                  [- sin a, 0, cos a]]"

definition std_rot_x :: "real \<Rightarrow> mat3" where
  "std_rot_x a = [[1, 0, 0],
                  [0, cos a, - sin a],
                  [0, sin a, cos a]]"

definition dot :: "real list \<Rightarrow> real list \<Rightarrow> real" where
  "dot u v = sum_list (map (\<lambda>(a, b). a * b) (zip u v))"

definition mat_apply :: "mat3 \<Rightarrow> real point3d \<Rightarrow> real point3d" where
  "mat_apply m p = Point3D (dot (m ! 0) (row_of p)) (dot (m ! 1) (row_of p)) (dot (m ! 2) (row_of p))"

section \<open>The SVG drawing builder\<close>

text \<open>
  Exceptions of the Python runtime that the modelled code can meet: \<^verbatim>\<open>min\<close> and
  \<^verbatim>\<open>max\<close> of an empty sequence and \<^verbatim>\<open>math.sqrt\<close> of a negative number raise
  \<^verbatim>\<open>ValueError\<close>, a float division by zero raises \<^verbatim>\<open>ZeroDivisionError\<close>, a missing
  dictionary key raises \<^verbatim>\<open>KeyError\<close>.
\<close>

datatype py_error = ValueError | ZeroDivisionError | KeyError

definition py_div :: "real \<Rightarrow> real \<Rightarrow> py_error + real" where
  "py_div a b = (if b = 0 then Inl ZeroDivisionError else Inr (a / b))"

definition py_sqrt :: "real \<Rightarrow> py_error + real" where
  "py_sqrt v = (if v < 0 then Inl ValueError else Inr (sqrt v))"

text \<open>\<^verbatim>\<open>math.atan2(y, x)\<close>: the angle of the vector \<open>(x, y)\<close>, in \<open>(-pi, pi]\<close>.\<close>

definition atan2 :: "real \<Rightarrow> real \<Rightarrow> real" where
  "atan2 y x =
     (if 0 < x then arctan (y / x)
      else if x < 0 \<and> 0 \<le> y then arctan (y / x) + pi
      else if x < 0 \<and> y < 0 then arctan (y / x) - pi
      else if 0 < y then pi / 2
      else if y < 0 then - (pi / 2)
      else 0)"

text \<open>\<^verbatim>\<open>math.degrees\<close>: radians to degrees.\<close>

definition degrees :: "real \<Rightarrow> real" where
  "degrees r = r * (180 / pi)"

text \<open>
  The source appends one markup string per element to \<^verbatim>\<open>self.elements\<close>.  An element
  is kept here as the constructor of its tag with the values that the f-string
  interpolates, in the order of the method's parameters; the formatting of numbers as
  text is not modelled.  An optional attribute is present when its argument is truthy
  (neither \<^verbatim>\<open>None\<close> nor the empty string).
\<close>

datatype svg_element =
    Line real real real real string real "string option" real "string option" "string option"
  | Circle real real real string string real
  | Polygon "(real \<times> real) list" string string real real
  | Text real real string int string string string
  | RotatedText real real real real real string

record svg_drawing =
  svg_width :: int
  svg_height :: int
  elements :: "svg_element list"
  defs :: "string list"

definition truthy :: "string option \<Rightarrow> string option" where
  "truthy a = (case a of None \<Rightarrow> None | Some v \<Rightarrow> if v = [] then None else Some v)"

definition add_element :: "svg_drawing \<Rightarrow> svg_element \<Rightarrow> svg_drawing" where
  "add_element self element = self\<lparr>elements := elements self @ [element]\<rparr>"

definition line ::
  "svg_drawing \<Rightarrow> real \<Rightarrow> real \<Rightarrow> real \<Rightarrow> real \<Rightarrow> string \<Rightarrow> real \<Rightarrow> string option \<Rightarrow> real
     \<Rightarrow> string option \<Rightarrow> string option \<Rightarrow> svg_drawing" where
  "line self x1 y1 x2 y2 stroke stroke_width stroke_dasharray opacity marker_start marker_end =
     add_element self
       (Line x1 y1 x2 y2 stroke stroke_width (truthy stroke_dasharray) opacity
          (truthy marker_start) (truthy marker_end))"

definition circle ::
  "svg_drawing \<Rightarrow> real \<Rightarrow> real \<Rightarrow> real \<Rightarrow> string \<Rightarrow> string \<Rightarrow> real \<Rightarrow> svg_drawing" where
  "circle self cx cy r fill stroke stroke_width =
     add_element self (Circle cx cy r fill stroke stroke_width)"

definition polygon ::
  "svg_drawing \<Rightarrow> (real \<times> real) list \<Rightarrow> string \<Rightarrow> string \<Rightarrow> real \<Rightarrow> real \<Rightarrow> svg_drawing" where
  "polygon self points fill stroke stroke_width opacity =
     add_element self (Polygon points fill stroke stroke_width opacity)"

definition text_el ::
  "svg_drawing \<Rightarrow> real \<Rightarrow> real \<Rightarrow> string \<Rightarrow> int \<Rightarrow> string \<Rightarrow> string \<Rightarrow> string \<Rightarrow> svg_drawing" where
  "text_el self x y txt font_size anchor font_weight fill =
     add_element self (Text x y txt font_size anchor font_weight fill)"

text \<open>
  \<^verbatim>\<open>SVGDrawing.dimension_line\<close>.  The square root and the two divisions can raise in
  Python, so the result is a sum; an error leaves the drawing as it was, since every
  element is added after the last division.
\<close>

definition dimension_line ::
  "svg_drawing \<Rightarrow> real \<Rightarrow> real \<Rightarrow> real \<Rightarrow> real \<Rightarrow> string \<Rightarrow> real \<Rightarrow> py_error + svg_drawing" where
  "dimension_line self x1 y1 x2 y2 label offset =
     (let dx = x2 - x1;
          dy = y2 - y1
      in case py_sqrt (dx * dx + dy * dy) of
           Inl e \<Rightarrow> Inl e
         | Inr length' \<Rightarrow>
             if length' = 0 then Inr self
             else
               (case py_div (- dy) length' of
                  Inl e \<Rightarrow> Inl e
                | Inr px \<Rightarrow>
                   (case py_div dx length' of
                      Inl e \<Rightarrow> Inl e
                    | Inr py \<Rightarrow>
                       (let ox1 = x1 + px * offset;
                            oy1 = y1 + py * offset;
                            ox2 = x2 + px * offset;
                            oy2 = y2 + py * offset;
                            self = line self x1 y1 ox1 oy1 ''black'' 0.3 None 1.0 None None;
                            self = line self x2 y2 ox2 oy2 ''black'' 0.3 None 1.0 None None;
                            self = line self ox1 oy1 ox2 oy2 ''black'' 0.5 None 1.0
                                     (Some ''url(#arrowhead-start)'') (Some ''url(#arrowhead)'');
                            mid_x = (ox1 + ox2) / 2;
                            mid_y = (oy1 + oy2) / 2;
                            angle = degrees (atan2 dy dx);
                            angle = (if angle > 90 \<or> angle < - 90 then angle + 180 else angle)
                        in Inr (add_element self
                                  (RotatedText mid_x (mid_y - 3) angle mid_x mid_y label))))))"

section \<open>Orthographic views\<close>

text \<open>
  The builtins \<^verbatim>\<open>min\<close> and \<^verbatim>\<open>max\<close> over a sequence: the first item, replaced by
  each later item that compares strictly below (above) the current one; an empty
  sequence raises.
\<close>

definition py_min :: "'a::ord list \<Rightarrow> py_error + 'a" where
  "py_min xs =
     (case xs of
        [] \<Rightarrow> Inl ValueError
      | v # rest \<Rightarrow> Inr (fold (\<lambda>item cur. if item < cur then item else cur) rest v))"

definition py_max :: "'a::ord list \<Rightarrow> py_error + 'a" where
  "py_max xs =
     (case xs of
        [] \<Rightarrow> Inl ValueError
      | v # rest \<Rightarrow> Inr (fold (\<lambda>item cur. if item > cur then item else cur) rest v))"

definition then_do :: "py_error + 'a \<Rightarrow> ('a \<Rightarrow> py_error + 'b) \<Rightarrow> py_error + 'b" where
  "then_do r f = (case r of Inl e \<Rightarrow> Inl e | Inr v \<Rightarrow> f v)"

text \<open>
  The block of \<^verbatim>\<open>draw_orthographic_views\<close> that computes the bounding box of the
  whole assembly: the corners of all panels, then six extrema in the order of the source.
\<close>

definition bounding_box ::
  "'a::{plus,ord} panel list \<Rightarrow> py_error + ('a \<times> 'a \<times> 'a \<times> 'a \<times> 'a \<times> 'a)" where
  "bounding_box panels =
     (let all_corners = concat (map get_corners panels)
      in then_do (py_min (map p_x all_corners)) (\<lambda>min_x.
         then_do (py_max (map p_x all_corners)) (\<lambda>max_x.
         then_do (py_min (map p_y all_corners)) (\<lambda>min_y.
         then_do (py_max (map p_y all_corners)) (\<lambda>max_y.
         then_do (py_min (map p_z all_corners)) (\<lambda>min_z.
         then_do (py_max (map p_z all_corners)) (\<lambda>max_z.
           Inr (min_x, max_x, min_y, max_y, min_z, max_z))))))))"

text \<open>The bodies of the three loops over the panels, one per view.\<close>

definition top_view_panel ::
  "real \<Rightarrow> real \<Rightarrow> real \<Rightarrow> real \<Rightarrow> real \<Rightarrow> real panel \<Rightarrow> svg_drawing \<Rightarrow> svg_drawing" where
  "top_view_panel x_start y_offset min_x min_y scale panel self =
     (let corners = get_corners panel;
          rect_points =
            [(x_start + (p_x (corners ! 0) - min_x) * scale,
              y_offset + (p_y (corners ! 0) - min_y) * scale),
             (x_start + (p_x (corners ! 1) - min_x) * scale,
              y_offset + (p_y (corners ! 1) - min_y) * scale),
             (x_start + (p_x (corners ! 2) - min_x) * scale,
              y_offset + (p_y (corners ! 2) - min_y) * scale),
             (x_start + (p_x (corners ! 3) - min_x) * scale,
              y_offset + (p_y (corners ! 3) - min_y) * scale)];
          self = polygon self rect_points ''white'' ''black'' 0.5 1.0
      in fold (\<lambda>hole self.
                 let hole_world = Point3D (p_x (position panel) + p_x hole)
                                          (p_y (position panel) + p_y hole)
                                          (p_z (position panel) + p_z hole);
                     hx = x_start + (p_x hole_world - min_x) * scale;
                     hy = y_offset + (p_y hole_world - min_y) * scale
                 in circle self hx hy 2 ''white'' ''black'' 1)
              (holes panel) self)"

definition front_view_panel ::
  "real \<Rightarrow> real \<Rightarrow> real \<Rightarrow> real \<Rightarrow> real \<Rightarrow> real panel \<Rightarrow> svg_drawing \<Rightarrow> svg_drawing" where
  "front_view_panel front_x y_offset min_x min_z scale panel self =
     (let corners = get_corners panel;
          rect_points =
            [(front_x + (p_x (corners ! 0) - min_x) * scale,
              y_offset + 250 - (p_z (corners ! 0) - min_z) * scale),
             (front_x + (p_x (corners ! 1) - min_x) * scale,
              y_offset + 250 - (p_z (corners ! 1) - min_z) * scale),
             (front_x + (p_x (corners ! 5) - min_x) * scale,
              y_offset + 250 - (p_z (corners ! 5) - min_z) * scale),
             (front_x + (p_x (corners ! 4) - min_x) * scale,
              y_offset + 250 - (p_z (corners ! 4) - min_z) * scale)]
      in polygon self rect_points ''white'' ''black'' 0.5 1.0)"

definition side_view_panel ::
  "real \<Rightarrow> real \<Rightarrow> real \<Rightarrow> real \<Rightarrow> real \<Rightarrow> real panel \<Rightarrow> svg_drawing \<Rightarrow> svg_drawing" where
  "side_view_panel side_x y_offset min_y min_z scale panel self =
     (let corners = get_corners panel;
          rect_points =
            [(side_x + (p_y (corners ! 0) - min_y) * scale,
              y_offset + 250 - (p_z (corners ! 0) - min_z) * scale),
             (side_x + (p_y (corners ! 3) - min_y) * scale,
              y_offset + 250 - (p_z (corners ! 3) - min_z) * scale),
             (side_x + (p_y (corners ! 7) - min_y) * scale,
              y_offset + 250 - (p_z (corners ! 7) - min_z) * scale),
             (side_x + (p_y (corners ! 4) - min_y) * scale,
              y_offset + 250 - (p_z (corners ! 4) - min_z) * scale)]
      in polygon self rect_points ''white'' ''black'' 0.5 1.0)"

text \<open>
  \<^verbatim>\<open>BenchDrawing.draw_orthographic_views\<close>, on the drawing \<^verbatim>\<open>self.svg\<close>.  The result
  is the drawing together with the returned offset or the exception; when \<^verbatim>\<open>min\<close>
  raises on an empty panel list the section title has already been added.
\<close>

definition draw_orthographic_views ::
  "svg_drawing \<Rightarrow> real panel list \<Rightarrow> real \<Rightarrow> real \<Rightarrow> svg_drawing \<times> (py_error + real)" where
  "draw_orthographic_views self panels y_offset scale =
     (let x_start = 100;
          spacing = 350;
          self = text_el self 50 y_offset ''ORTHOGRAPHIC VIEWS'' 12 ''start'' ''normal'' ''black'';
          y_offset = y_offset + 25
      in case bounding_box panels of
           Inl e \<Rightarrow> (self, Inl e)
         | Inr (min_x, max_x, min_y, max_y, min_z, max_z) \<Rightarrow>
             (let self = text_el self (x_start + 50) y_offset ''Top View'' 10
                           ''start'' ''normal'' ''black'';
                  y_offset = y_offset + 20;
                  self = fold (top_view_panel x_start y_offset min_x min_y scale) panels self;
                  front_x = x_start + spacing;
                  self = text_el self (front_x + 50) (y_offset - 20) ''Front View'' 10
                           ''start'' ''normal'' ''black'';
                  self = fold (front_view_panel front_x y_offset min_x min_z scale) panels self;
                  side_x = x_start + spacing * 2;
                  self = text_el self (side_x + 50) (y_offset - 20) ''Right Side View'' 10
                           ''start'' ''normal'' ''black'';
                  self = fold (side_view_panel side_x y_offset min_y min_z scale) panels self
              in (self, Inr (y_offset + 270))))"

text \<open>
  The bounding box in the words of the specification: the smallest and the largest value
  of each coordinate over the corners of all panels.
\<close>

definition all_corner_set :: "'a::plus panel list \<Rightarrow> 'a point3d set" where
  "all_corner_set panels = (\<Union>panel \<in> set panels. set (get_corners panel))"

definition bbox_spec :: "real panel list \<Rightarrow> real \<times> real \<times> real \<times> real \<times> real \<times> real" where
  "bbox_spec panels =
     (Min (p_x ` all_corner_set panels), Max (p_x ` all_corner_set panels),
      Min (p_y ` all_corner_set panels), Max (p_y ` all_corner_set panels),
      Min (p_z ` all_corner_set panels), Max (p_z ` all_corner_set panels))"

text \<open>
  The projections in the words of the specification: drop one axis, subtract the
  minimum of the bounding box, scale, and add the pixel origin of the view (the vertical
  axis of the front and side views points up, from 250 pixels below the origin).
\<close>

definition project_top :: "real \<times> real \<Rightarrow> real \<Rightarrow> real \<Rightarrow> real \<Rightarrow> real point3d \<Rightarrow> real \<times> real" where
  "project_top origin min_x min_y scale p =
     (fst origin + (p_x p - min_x) * scale, snd origin + (p_y p - min_y) * scale)"

definition project_front :: "real \<times> real \<Rightarrow> real \<Rightarrow> real \<Rightarrow> real \<Rightarrow> real point3d \<Rightarrow> real \<times> real" where
  "project_front origin min_x min_z scale p =
     (fst origin + (p_x p - min_x) * scale, snd origin + 250 - (p_z p - min_z) * scale)"

definition project_side :: "real \<times> real \<Rightarrow> real \<Rightarrow> real \<Rightarrow> real \<Rightarrow> real point3d \<Rightarrow> real \<times> real" where
  "project_side origin min_y min_z scale p =
     (fst origin + (p_y p - min_y) * scale, snd origin + 250 - (p_z p - min_z) * scale)"

definition face :: "nat list \<Rightarrow> real panel \<Rightarrow> real point3d list" where
  "face idx panel = map (\<lambda>i. get_corners panel ! i) idx"

definition hole_world :: "real panel \<Rightarrow> real point3d \<Rightarrow> real point3d" where
  "hole_world panel hole = translate (position panel) (p_x hole) (p_y hole) (p_z hole)"

definition top_view_elements ::
  "real \<times> real \<Rightarrow> real \<Rightarrow> real \<Rightarrow> real \<Rightarrow> real panel \<Rightarrow> svg_element list" where
  "top_view_elements origin min_x min_y scale panel =
     Polygon (map (project_top origin min_x min_y scale) (face [0, 1, 2, 3] panel))
        ''white'' ''black'' 0.5 1
     # map (\<lambda>hole. case project_top origin min_x min_y scale (hole_world panel hole) of
                       (hx, hy) \<Rightarrow> Circle hx hy 2 ''white'' ''black'' 1) (holes panel)"

definition front_view_element ::
  "real \<times> real \<Rightarrow> real \<Rightarrow> real \<Rightarrow> real \<Rightarrow> real panel \<Rightarrow> svg_element" where
  "front_view_element origin min_x min_z scale panel =
     Polygon (map (project_front origin min_x min_z scale) (face [0, 1, 5, 4] panel))
        ''white'' ''black'' 0.5 1"

definition side_view_element ::
  "real \<times> real \<Rightarrow> real \<Rightarrow> real \<Rightarrow> real \<Rightarrow> real panel \<Rightarrow> svg_element" where
  "side_view_element origin min_y min_z scale panel =
     Polygon (map (project_side origin min_y min_z scale) (face [0, 3, 7, 4] panel))
        ''white'' ''black'' 0.5 1"

definition view_label :: "real \<Rightarrow> real \<Rightarrow> string \<Rightarrow> svg_element" where
  "view_label x y txt = Text x y txt 10 ''start'' ''normal'' ''black''"

text \<open>
  All elements of the three views, drawn against one bounding box \<open>bb\<close>; \<open>y\<close> is the
  offset passed to \<open>draw_orthographic_views\<close>.
\<close>

definition orthographic_elements ::
  "real \<times> real \<times> real \<times> real \<times> real \<times> real \<Rightarrow> real panel list \<Rightarrow> real \<Rightarrow> real
     \<Rightarrow> svg_element list" where
  "orthographic_elements bb panels y scale =
     (case bb of (min_x, max_x, min_y, max_y, min_z, max_z) \<Rightarrow>
        [Text 50 y ''ORTHOGRAPHIC VIEWS'' 12 ''start'' ''normal'' ''black'',
         view_label 150 (y + 25) ''Top View'']
        @ concat (map (top_view_elements (100, y + 45) min_x min_y scale) panels)
        @ [view_label 500 (y + 25) ''Front View'']
        @ map (front_view_element (450, y + 45) min_x min_z scale) panels
        @ [view_label 850 (y + 25) ''Right Side View'']
        @ map (side_view_element (800, y + 45) min_y min_z scale) panels)"

section \<open>Example data\<close>

text \<open>
  The two-panel assembly of the specification: boxes spanning \<open>(0,0,0)\<close> to
  \<open>(10,5,2)\<close> and \<open>(20,0,0)\<close> to \<open>(30,5,2)\<close>.
\<close>

definition two_panel_assembly :: "real panel list" where
  "two_panel_assembly =
     [\<lparr>name = ''Left'', width = 10, depth = 5, thickness = 2,
       position = Point3D 0 0 0, holes = [], material = ''304 Stainless''\<rparr>,
      \<lparr>name = ''Right'', width = 10, depth = 5, thickness = 2,
       position = Point3D 20 0 0, holes = [], material = ''304 Stainless''\<rparr>]"

definition empty_drawing :: svg_drawing where
  "empty_drawing = \<lparr>svg_width = 1200, svg_height = 1600, elements = [], defs = []\<rparr>"

section \<open>The exploded view\<close>

text \<open>
  The first loop of \<^verbatim>\<open>draw_exploded_view\<close>: every panel is rebuilt with its position
  translated along Z by \<^verbatim>\<open>explode_distance * (i - len(panels)//2)\<close>.  The index
  difference is a Python int; \<open>to_float\<close> is the conversion that the multiplication
  with a float applies to it (\<open>of_int\<close> over the reals).  The zeros passed to
  \<^verbatim>\<open>translate\<close> are the number zero of the coordinate type.
\<close>

definition explode_offset :: "(int \<Rightarrow> 'a) \<Rightarrow> 'a::times \<Rightarrow> nat \<Rightarrow> nat \<Rightarrow> 'a" where
  "explode_offset to_float explode_distance i n =
     explode_distance * to_float (int i - int (n div 2))"

definition explode_panels ::
  "(int \<Rightarrow> 'a) \<Rightarrow> 'a::{plus,times,zero} panel list \<Rightarrow> 'a \<Rightarrow> 'a panel list" where
  "explode_panels to_float panels explode_distance =
     map (\<lambda>(i, panel).
            let offset = explode_offset to_float explode_distance i (length panels);
                exploded_pos = translate (position panel) 0 0 offset
            in \<lparr>name = name panel, width = width panel, depth = depth panel,
                thickness = thickness panel, position = exploded_pos,
                holes = holes panel, material = material panel\<rparr>)
         (enumerate 0 panels)"

text \<open>The body of the loop that draws the exploded panels.\<close>

definition draw_exploded_panel ::
  "real \<Rightarrow> real \<Rightarrow> real \<Rightarrow> real panel \<Rightarrow> svg_drawing \<Rightarrow> svg_drawing" where
  "draw_exploded_panel x_center y_center scale panel self =
     (let corners = get_corners panel;
          iso_points = map (\<lambda>c. to_isometric c scale) corners;
          face_top =
            [(x_center + fst (iso_points ! 4), y_center + snd (iso_points ! 4)),
             (x_center + fst (iso_points ! 5), y_center + snd (iso_points ! 5)),
             (x_center + fst (iso_points ! 6), y_center + snd (iso_points ! 6)),
             (x_center + fst (iso_points ! 7), y_center + snd (iso_points ! 7))];
          self = polygon self face_top ''white'' ''black'' 0.5 1.0;
          face_right =
            [(x_center + fst (iso_points ! 1), y_center + snd (iso_points ! 1)),
             (x_center + fst (iso_points ! 2), y_center + snd (iso_points ! 2)),
             (x_center + fst (iso_points ! 6), y_center + snd (iso_points ! 6)),
             (x_center + fst (iso_points ! 5), y_center + snd (iso_points ! 5))];
          self = polygon self face_right ''white'' ''black'' 0.5 1.0;
          label_pos = iso_points ! 6
      in text_el self (x_center + fst label_pos + 10) (y_center + snd label_pos)
           (name panel) 8 ''start'' ''normal'' ''black'')"

text \<open>
  The body of the loop that draws the assembly direction arrows, for
  \<^verbatim>\<open>i in range(len(exploded_panels) - 1)\<close>.
\<close>

definition draw_assembly_arrow ::
  "real \<Rightarrow> real \<Rightarrow> real \<Rightarrow> real panel list \<Rightarrow> nat \<Rightarrow> svg_drawing \<Rightarrow> svg_drawing" where
  "draw_assembly_arrow x_center y_center scale exploded_panels i self =
     (let p1 = get_corners (exploded_panels ! i) ! 6;
          p2 = get_corners (exploded_panels ! (i + 1)) ! 4;
          iso1 = to_isometric p1 scale;
          iso2 = to_isometric p2 scale
      in line self (x_center + fst iso1) (y_center + snd iso1)
                   (x_center + fst iso2) (y_center + snd iso2)
                   ''black'' 0.5 (Some ''2,2'') 0.5 None None)"

text \<open>\<^verbatim>\<open>BenchDrawing.draw_exploded_view\<close>, on the drawing \<^verbatim>\<open>self.svg\<close>.\<close>

definition draw_exploded_view ::
  "svg_drawing \<Rightarrow> real panel list \<Rightarrow> real \<Rightarrow> real \<Rightarrow> real \<Rightarrow> svg_drawing \<times> real" where
  "draw_exploded_view self panels y_offset scale explode_distance =
     (let self = text_el self 50 y_offset ''EXPLODED ASSEMBLY'' 12 ''start'' ''normal'' ''black'';
          y_offset = y_offset + 25;
          x_center = 400;
          y_center = y_offset + 150;
          exploded_panels = explode_panels of_int panels explode_distance;
          self = fold (draw_exploded_panel x_center y_center scale) exploded_panels self;
          self = fold (draw_assembly_arrow x_center y_center scale exploded_panels)
                   [0 ..< length exploded_panels - 1] self
      in (self, y_offset + 320))"

section \<open>Binary64 arithmetic\<close>

text \<open>
  Python floats are IEEE 754 binary64 numbers.  This section gives their addition,
  multiplication and negation with rounding to nearest, ties to even, so that the
  functions above that are written against the bare operations can be run on them.
  A finite number is carried as the rational it denotes (\<open>Finite 0\<close> is \<open>+0.0\<close>).
\<close>

datatype f64 = Finite rat | NegZero | PosInf | NegInf | NaN

definition pow2 :: "int \<Rightarrow> rat" where
  "pow2 e = (if 0 \<le> e then 2 ^ nat e else 1 / 2 ^ nat (- e))"

text \<open>The exponent \<open>e\<close> with \<open>2 ^ e \<le> |r| < 2 ^ (e + 1)\<close>, for \<open>r \<noteq> 0\<close>.\<close>

definition binade :: "rat \<Rightarrow> int" where
  "binade r =
     (case quotient_of \<bar>r\<bar> of (p, q) \<Rightarrow>
        let e0 = bitlen p - bitlen q
        in if pow2 e0 \<le> \<bar>r\<bar> then e0 else e0 - 1)"

definition round_half_even :: "rat \<Rightarrow> int" where
  "round_half_even q =
     (let f = \<lfloor>q\<rfloor>; d = q - of_int f
      in if d < 1 / 2 then f
         else if 1 / 2 < d then f + 1
         else if even f then f else f + 1)"

text \<open>
  Rounding a rational to binary64: 53 significant bits, least exponent \<open>-1022\<close> (below it
  the spacing stays \<open>2 ^ -1074\<close>), overflow to infinity from \<open>2 ^ 1024\<close> on.
\<close>

definition round_f64 :: "rat \<Rightarrow> f64" where
  "round_f64 r =
     (if r = 0 then Finite 0
      else
        let e = max (binade r) (- 1022);
            ulp = pow2 (e - 52);
            n = round_half_even (r / ulp)
        in if 1024 \<le> e \<or> (e = 1023 \<and> 9007199254740992 \<le> \<bar>n\<bar>)
           then (if 0 < r then PosInf else NegInf)
           else if n = 0 then (if 0 < r then Finite 0 else NegZero)
           else Finite (of_int n * ulp))"

definition is_neg :: "f64 \<Rightarrow> bool" where
  "is_neg x = (case x of Finite r \<Rightarrow> r < 0 | NegZero \<Rightarrow> True | NegInf \<Rightarrow> True | _ \<Rightarrow> False)"

definition is_zero :: "f64 \<Rightarrow> bool" where
  "is_zero x = (x = Finite 0 \<or> x = NegZero)"

definition is_inf :: "f64 \<Rightarrow> bool" where
  "is_inf x = (x = PosInf \<or> x = NegInf)"

fun f64_add :: "f64 \<Rightarrow> f64 \<Rightarrow> f64" where
  "f64_add NaN y = NaN"
| "f64_add x NaN = NaN"
| "f64_add PosInf NegInf = NaN"
| "f64_add NegInf PosInf = NaN"
| "f64_add PosInf y = PosInf"
| "f64_add x PosInf = PosInf"
| "f64_add NegInf y = NegInf"
| "f64_add x NegInf = NegInf"
| "f64_add NegZero y = y"
| "f64_add x NegZero = x"
| "f64_add (Finite a) (Finite b) = round_f64 (a + b)"

definition f64_mul :: "f64 \<Rightarrow> f64 \<Rightarrow> f64" where
  "f64_mul x y =
     (if x = NaN \<or> y = NaN then NaN
      else if is_inf x \<or> is_inf y then
        (if is_zero x \<or> is_zero y then NaN
         else if is_neg x \<noteq> is_neg y then NegInf else PosInf)
      else if is_zero x \<or> is_zero y then
        (if is_neg x \<noteq> is_neg y then NegZero else Finite 0)
      else (case (x, y) of (Finite a, Finite b) \<Rightarrow> round_f64 (a * b) | _ \<Rightarrow> NaN))"

definition f64_neg :: "f64 \<Rightarrow> f64" where
  "f64_neg x =
     (case x of
        Finite r \<Rightarrow> if r = 0 then NegZero else Finite (- r)
      | NegZero \<Rightarrow> Finite 0
      | PosInf \<Rightarrow> NegInf
      | NegInf \<Rightarrow> PosInf
      | NaN \<Rightarrow> NaN)"

text \<open>
  The conversion of a Python int to a float.  (Python raises \<^verbatim>\<open>OverflowError\<close> from
  \<open>2 ^ 1024\<close> on; an index difference of a list never gets there.)
\<close>

definition f64_of_int :: "int \<Rightarrow> f64" where
  "f64_of_int k = round_f64 (of_int k)"

instantiation f64 :: "{zero, plus, times, uminus}"
begin

definition zero_f64 :: f64 where
  "zero_f64 = Finite 0"

definition plus_f64 :: "f64 \<Rightarrow> f64 \<Rightarrow> f64" where
  "plus_f64 x y = f64_add x y"

definition times_f64 :: "f64 \<Rightarrow> f64 \<Rightarrow> f64" where
  "times_f64 x y = f64_mul x y"

definition uminus_f64 :: "f64 \<Rightarrow> f64" where
  "uminus_f64 x = f64_neg x"

instance ..

end

text \<open>
  Three panels with the dimensions of Concept 4, the first one at height \<open>1.0\<close>, and the
  explode distance \<open>- 2 ^ 53\<close>, as binary64 numbers.
\<close>

definition f64_panels :: "f64 panel list" where
  "f64_panels =
     [\<lparr>name = ''Seat Panel'', width = Finite 60, depth = Finite 11, thickness = Finite (1 / 8),
       position = Point3D (Finite 0) (Finite 0) (Finite 1), holes = [],
       material = ''304 Stainless Steel''\<rparr>,
      \<lparr>name = ''Left Leg'', width = Finite 11, depth = Finite 16, thickness = Finite (1 / 4),
       position = Point3D (Finite 0) (Finite 0) (Finite 0), holes = [],
       material = ''304 Stainless Steel''\<rparr>,
      \<lparr>name = ''Right Leg'', width = Finite 11, depth = Finite 16, thickness = Finite (1 / 4),
       position = Point3D (Finite 49) (Finite 0) (Finite 0), holes = [],
       material = ''304 Stainless Steel''\<rparr>]"

definition f64_distance :: f64 where
  "f64_distance = Finite (- 9007199254740992)"

section \<open>The interactive 3D viewer\<close>

text \<open>
  The traces that \<^verbatim>\<open>create_interactive_viewer\<close> adds to the figure.  Of a
  \<^verbatim>\<open>Mesh3d\<close> trace the coordinates, the index arrays, colour, opacity, name and
  visibility are kept, of a \<^verbatim>\<open>Scatter3d\<close> trace the coordinates and the visibility;
  the remaining attributes are the same constants in every trace.
\<close>

datatype trace =
    Mesh3d "real list" "real list" "real list" "nat list" "nat list" "nat list"
      string real string bool
  | Scatter3d "real list" "real list" "real list" bool

text \<open>\<^verbatim>\<open>np.mean(vertices, axis=0)\<close> on an array with three columns.\<close>

definition mean_axis0 :: "real list list \<Rightarrow> real list" where
  "mean_axis0 rows = map (\<lambda>c. sum_list (column c rows) / real (length rows)) [0, 1, 2]"

text \<open>The bodies of the two loops over the panels; \<^verbatim>\<open>panel['name']\<close> can be missing.\<close>

definition assembled_trace :: "real mesh \<Rightarrow> py_error + trace" where
  "assembled_trace panel =
     (case mesh_name panel of
        None \<Rightarrow> Inl KeyError
      | Some n \<Rightarrow>
          Inr (Mesh3d (mesh_x panel) (mesh_y panel) (mesh_z panel)
                 (mesh_i panel) (mesh_j panel) (mesh_k panel)
                 (mesh_color panel) 1.0 n True))"

definition exploded_trace :: "real mesh \<Rightarrow> py_error + trace" where
  "exploded_trace panel =
     (case mesh_name panel of
        None \<Rightarrow> Inl KeyError
      | Some n \<Rightarrow>
          Inr (Mesh3d (mesh_x panel) (mesh_y panel) (mesh_z panel)
                 (mesh_i panel) (mesh_j panel) (mesh_k panel)
                 (mesh_color panel) 1.0 (n @ '' (Exploded)'') False))"

fun add_traces ::
  "('p \<Rightarrow> py_error + trace) \<Rightarrow> 'p list \<Rightarrow> trace list \<Rightarrow> py_error + trace list" where
  "add_traces f [] fig = Inr fig"
| "add_traces f (panel # rest) fig =
     (case f panel of
        Inl e \<Rightarrow> Inl e
      | Inr t \<Rightarrow> add_traces f rest (fig @ [t]))"

definition connection_trace :: "real mesh list \<Rightarrow> nat \<times> nat \<Rightarrow> trace" where
  "connection_trace exploded_panels c =
     (case c of (idx1, idx2) \<Rightarrow>
        let p1_center = mean_axis0 (mesh_vertices (exploded_panels ! idx1));
            p2_center = mean_axis0 (mesh_vertices (exploded_panels ! idx2))
        in Scatter3d [p1_center ! 0, p2_center ! 0]
                     [p1_center ! 1, p2_center ! 1]
                     [p1_center ! 2, p2_center ! 2] False)"

text \<open>
  \<^verbatim>\<open>create_interactive_viewer\<close> up to the last \<^verbatim>\<open>add_trace\<close>: the result is
  \<^verbatim>\<open>fig.data\<close>.  The layout, the toggle buttons and the writing of the HTML file
  follow in the source and add no trace.
\<close>

definition create_interactive_viewer ::
  "real mesh list \<Rightarrow> real mesh list \<Rightarrow> py_error + trace list" where
  "create_interactive_viewer assembled_panels exploded_panels =
     then_do (add_traces assembled_trace assembled_panels []) (\<lambda>fig.
     then_do (add_traces exploded_trace exploded_panels fig) (\<lambda>fig.
       Inr (if length exploded_panels = 3
            then (let connections = [(0, 1), (0, 2)]
                  in fold (\<lambda>c fig. fig @ [connection_trace exploded_panels c]) connections fig)
            else fig)))"

text \<open>\<^verbatim>\<open>create_concept_4_assembled\<close> and \<^verbatim>\<open>create_concept_4_exploded\<close>.\<close>

definition named :: "string \<Rightarrow> 'a mesh \<Rightarrow> 'a mesh" where
  "named n m = m\<lparr>mesh_name := Some n\<rparr>"

definition create_concept_4_assembled :: "real mesh list" where
  "create_concept_4_assembled =
     [named ''Seat Panel'' (create_box_mesh 0 0 16.0 60.0 11.0 0.125 ''white''),
      named ''Left Leg'' (create_box_mesh 0 0 0 11.0 16.0 0.25 ''white''),
      named ''Right Leg'' (create_box_mesh 49.0 0 0 11.0 16.0 0.25 ''white'')]"

definition create_concept_4_exploded :: "real mesh list" where
  "create_concept_4_exploded =
     (let explode_offset = 8.0
      in [named ''Seat Panel''
            (create_box_mesh 0 0 (16.0 + explode_offset) 60.0 11.0 0.125 ''#d4d4d4''),
          named ''Left Leg''
            (create_box_mesh (- explode_offset) 0 0 11.0 16.0 0.25 ''#a0a0a0''),
          named ''Right Leg''
            (create_box_mesh (49.0 + explode_offset) 0 0 11.0 16.0 0.25 ''white'')])"

section \<open>Connection lines in the words of the specification\<close>

text \<open>The centroid of a list of points: the mean of each coordinate.\<close>

definition centroid :: "real point3d list \<Rightarrow> real point3d" where
  "centroid ps =
     Point3D (sum_list (map p_x ps) / real (length ps))
             (sum_list (map p_y ps) / real (length ps))
             (sum_list (map p_z ps) / real (length ps))"

definition point_of_row :: "'a list \<Rightarrow> 'a point3d" where
  "point_of_row r = Point3D (r ! 0) (r ! 1) (r ! 2)"

definition mesh_centroid :: "real mesh \<Rightarrow> real point3d" where
  "mesh_centroid m = centroid (map point_of_row (mesh_vertices m))"

text \<open>A 3D segment between two points, as the hidden trace of the viewer.\<close>

definition segment3d :: "real point3d \<Rightarrow> real point3d \<Rightarrow> trace" where
  "segment3d a b = Scatter3d [p_x a, p_x b] [p_y a, p_y b] [p_z a, p_z b] False"

definition is_scatter :: "trace \<Rightarrow> bool" where
  "is_scatter t = (case t of Scatter3d _ _ _ _ \<Rightarrow> True | _ \<Rightarrow> False)"

definition is_line :: "svg_element \<Rightarrow> bool" where
  "is_line e = (case e of Line _ _ _ _ _ _ _ _ _ _ \<Rightarrow> True | _ \<Rightarrow> False)"

definition line_start :: "svg_element \<Rightarrow> real \<times> real" where
  "line_start e = (case e of Line x1 y1 _ _ _ _ _ _ _ _ \<Rightarrow> (x1, y1) | _ \<Rightarrow> (0, 0))"

text \<open>
  The screen position of a 3D point in the exploded view drawn at offset \<open>y\<close>: the
  isometric projection about the centre \<open>(400, y + 175)\<close>.
\<close>

definition exploded_screen :: "real \<Rightarrow> real \<Rightarrow> real point3d \<Rightarrow> real \<times> real" where
  "exploded_screen y scale p =
     (400 + fst (to_isometric p scale), y + 175 + snd (to_isometric p scale))"

definition dashed_line :: "real \<times> real \<Rightarrow> real \<times> real \<Rightarrow> svg_element" where
  "dashed_line a b = Line (fst a) (snd a) (fst b) (snd b) ''black'' 0.5 (Some ''2,2'') 0.5 None None"

section \<open>The explode loop on a store of objects\<close>

text \<open>
  Points, panels and lists are mutable objects in Python, and the exploded panels share
  their hole lists with the source panels.  To state that the explode loop writes to
  none of the objects it was given, this section runs the loop on an explicit store: a
  list of objects addressed by their index, where allocation appends.  Numbers and
  strings are immutable and stay values.  A panel object holds the addresses of its
  position and of its hole list.  \<open>None\<close> stands for a store in which an address does
  not hold an object of the expected class.
\<close>

type_synonym addr = nat

datatype 'a obj =
    PointObj "'a point3d"
  | ListObj "addr list"
  | PanelObj string 'a 'a 'a addr addr string

type_synonym 'a heap = "'a obj list"

definition alloc :: "'a heap \<Rightarrow> 'a obj \<Rightarrow> 'a heap \<times> addr" where
  "alloc h ob = (h @ [ob], length h)"

definition get_obj :: "'a heap \<Rightarrow> addr \<Rightarrow> 'a obj option" where
  "get_obj h a = (if a < length h then Some (h ! a) else None)"

text \<open>
  The loop \<^verbatim>\<open>for i, panel in enumerate(panels)\<close> of \<^verbatim>\<open>draw_exploded_view\<close>:
  \<^verbatim>\<open>translate\<close> allocates a point, the constructor \<^verbatim>\<open>Panel(...)\<close> allocates a
  panel that refers to the new point and to the hole list of the source panel, and
  \<^verbatim>\<open>append\<close> updates the list object \<open>exploded_panels\<close> in place.
\<close>

fun explode_loop ::
  "(int \<Rightarrow> 'a) \<Rightarrow> 'a::{plus,times,zero} \<Rightarrow> nat \<Rightarrow> nat \<Rightarrow> addr list \<Rightarrow> addr \<Rightarrow> 'a heap
     \<Rightarrow> 'a heap option" where
  "explode_loop to_float explode_distance n i [] exploded_panels h = Some h"
| "explode_loop to_float explode_distance n i (panel # rest) exploded_panels h =
     (case get_obj h panel of
        Some (PanelObj nm w d t pos hs mat) \<Rightarrow>
          (case get_obj h pos of
             Some (PointObj p) \<Rightarrow>
               (let offset = explode_offset to_float explode_distance i n;
                    (h, exploded_pos) = alloc h (PointObj (translate p 0 0 offset));
                    (h, exploded_panel) = alloc h (PanelObj nm w d t exploded_pos hs mat)
                in case get_obj h exploded_panels of
                     Some (ListObj items) \<Rightarrow>
                       explode_loop to_float explode_distance n (Suc i) rest exploded_panels
                         (h[exploded_panels := ListObj (items @ [exploded_panel])])
                   | _ \<Rightarrow> None)
           | _ \<Rightarrow> None)
      | _ \<Rightarrow> None)"

definition explode_store ::
  "(int \<Rightarrow> 'a) \<Rightarrow> 'a::{plus,times,zero} \<Rightarrow> addr \<Rightarrow> 'a heap \<Rightarrow> ('a heap \<times> addr) option" where
  "explode_store to_float explode_distance panels h =
     (case get_obj h panels of
        Some (ListObj refs) \<Rightarrow>
          (let (h, exploded_panels) = alloc h (ListObj [])
           in case explode_loop to_float explode_distance (length refs) 0 refs exploded_panels h of
                None \<Rightarrow> None
              | Some h' \<Rightarrow> Some (h', exploded_panels))
      | _ \<Rightarrow> None)"

text \<open>Reading a panel value, and a list of panel values, out of the store.\<close>

definition read_point :: "'a heap \<Rightarrow> addr \<Rightarrow> 'a point3d option" where
  "read_point h a = (case get_obj h a of Some (PointObj p) \<Rightarrow> Some p | _ \<Rightarrow> None)"

definition read_points :: "'a heap \<Rightarrow> addr \<Rightarrow> 'a point3d list option" where
  "read_points h a =
     (case get_obj h a of
        Some (ListObj refs) \<Rightarrow> those (map (read_point h) refs)
      | _ \<Rightarrow> None)"

definition read_panel :: "'a heap \<Rightarrow> addr \<Rightarrow> 'a panel option" where
  "read_panel h a =
     (case get_obj h a of
        Some (PanelObj nm w d t pos hs mat) \<Rightarrow>
          (case read_point h pos of
             Some p \<Rightarrow>
               (case read_points h hs of
                  Some hl \<Rightarrow>
                    Some \<lparr>name = nm, width = w, depth = d, thickness = t, position = p,
                          holes = hl, material = mat\<rparr>
                | None \<Rightarrow> None)
           | None \<Rightarrow> None)
      | _ \<Rightarrow> None)"

definition read_panels :: "'a heap \<Rightarrow> addr \<Rightarrow> 'a panel list option" where
  "read_panels h a =
     (case get_obj h a of
        Some (ListObj refs) \<Rightarrow> those (map (read_panel h) refs)
      | _ \<Rightarrow> None)"

text \<open>The address of the hole list of a panel, and of each panel in a list.\<close>

definition holes_ref :: "'a heap \<Rightarrow> addr \<Rightarrow> addr option" where
  "holes_ref h a =
     (case get_obj h a of
        Some (PanelObj nm w d t pos hs mat) \<Rightarrow> Some hs
      | _ \<Rightarrow> None)"

definition holes_refs :: "'a heap \<Rightarrow> addr \<Rightarrow> addr option list" where
  "holes_refs h a =
     (case get_obj h a of
        Some (ListObj refs) \<Rightarrow> map (holes_ref h) refs
      | _ \<Rightarrow> [])"

text \<open>
  A store with the two panels of the example assembly, the first with one hole:
  address 0 and 3 hold the positions, 1 the hole, 2 and 4 the hole lists, 5 and 6 the
  panels, 7 the panel list.
\<close>

definition example_store :: "real heap" where
  "example_store =
     [PointObj (Point3D 0 0 0),
      PointObj (Point3D 2 2 0),
      ListObj [1],
      PointObj (Point3D 20 0 0),
      ListObj [],
      PanelObj ''Left'' 10 5 2 0 2 ''304 Stainless'',
      PanelObj ''Right'' 10 5 2 3 4 ''304 Stainless'',
      ListObj [5, 6]]"

text \<open>The panel values held by \<open>example_store\<close>.\<close>

definition example_panels :: "real panel list" where
  "example_panels =
     [\<lparr>name = ''Left'', width = 10, depth = 5, thickness = 2,
       position = Point3D 0 0 0, holes = [Point3D 2 2 0], material = ''304 Stainless''\<rparr>,
      \<lparr>name = ''Right'', width = 10, depth = 5, thickness = 2,
       position = Point3D 20 0 0, holes = [], material = ''304 Stainless''\<rparr>]"

section \<open>Properties\<close>

subsection \<open>Rotations\<close>

lemma rotate_y_std: "rotate_y p a = mat_apply (std_rot_y a) p"
  by (simp add: rotate_y_def mat_apply_def std_rot_y_def dot_def row_of_def Point3D_def
      Let_def mult.commute)

lemma rotate_x_std: "rotate_x p a = mat_apply (std_rot_x a) p"
  by (simp add: rotate_x_def mat_apply_def std_rot_x_def dot_def row_of_def Point3D_def
      Let_def mult.commute)

text \<open>
  C3: \<open>to_isometric\<close> is the rotation by 45 degrees about Y, followed by the rotation by
  35.264 degrees about X, both as the standard right-handed matrices, followed by the
  screen map \<open>(x, y) \<mapsto> (x * s, - y * s)\<close>.  The function has no failing branch: the
  source raises nowhere on this path.
\<close>

theorem to_isometric_is_rot_y_rot_x_flip:
  "to_isometric p s =
     (let q = mat_apply (std_rot_x (35.264 * pi / 180)) (mat_apply (std_rot_y (45 * pi / 180)) p)
      in (p_x q * s, - (p_y q * s)))"
  by (simp add: to_isometric_def radians_def rotate_y_std rotate_x_std Let_def)

text \<open>
  C10: a rotation about the Y axis keeps the y coordinate, a rotation about the X axis
  keeps the x coordinate.
\<close>

theorem rotate_keeps_axis_coordinate:
  "p_y (rotate_y p theta) = p_y p \<and> p_x (rotate_x p theta) = p_x p"
  by (simp add: rotate_y_def rotate_x_def Point3D_def Let_def)

subsection \<open>Corners and the box mesh\<close>

text \<open>
  C4: \<open>get_corners\<close> returns 8 corners; corners 0 to 3 are the bottom face in the order
  origin, +X, +X+Y, +Y, corners 4 to 7 repeat that order at \<open>z + thickness\<close>; for a panel
  at the origin corner 6 is \<open>(w, d, t)\<close>.
\<close>

theorem get_corners_convention:
  fixes P :: "real panel"
  shows "length (get_corners P) = 8
    \<and> get_corners P ! 0 = Point3D (p_x (position P)) (p_y (position P)) (p_z (position P))
    \<and> get_corners P ! 1 = translate (get_corners P ! 0) (width P) 0 0
    \<and> get_corners P ! 2 = translate (get_corners P ! 0) (width P) (depth P) 0
    \<and> get_corners P ! 3 = translate (get_corners P ! 0) 0 (depth P) 0
    \<and> map (\<lambda>i. get_corners P ! (i + 4)) [0, 1, 2, 3]
        = map (\<lambda>i. translate (get_corners P ! i) 0 0 (thickness P)) [0, 1, 2, 3]
    \<and> get_corners (P\<lparr>position := Point3D 0 0 0\<rparr>) ! 6
        = Point3D (width P) (depth P) (thickness P)"
  by (simp add: get_corners_def translate_def Point3D_def Let_def)

text \<open>
  C5: the vertices of the box mesh are, index for index, the corners of the panel with the
  same position and dimensions.
\<close>

theorem create_box_mesh_vertices_are_corners:
  "mesh_vertices (create_box_mesh x y z wd dp th col)
     = map row_of (get_corners \<lparr>name = n, width = wd, depth = dp, thickness = th,
                                position = Point3D x y z, holes = hs, material = m\<rparr>)"
  by (simp add: create_box_mesh_def get_corners_def row_of_def Point3D_def Let_def)

text \<open>
  C1: what the code does.  The three index arrays are a constant table whose entries all
  refer to one of the 8 vertices, but each array has 24 entries, so the mesh has 24
  triangles; the bottom face (corners 0, 1, 2, 3) receives the single triangle (0, 1, 2).
\<close>

theorem create_box_mesh_has_24_triangles:
  "length (triangles (create_box_mesh x y z wd dp th col)) = 24
   \<and> length (mesh_i (create_box_mesh x y z wd dp th col)) = 24
   \<and> length (mesh_j (create_box_mesh x y z wd dp th col)) = 24
   \<and> length (mesh_k (create_box_mesh x y z wd dp th col)) = 24
   \<and> length (mesh_vertices (create_box_mesh x y z wd dp th col)) = 8
   \<and> list_all (\<lambda>(a, b, c). a < 8 \<and> b < 8 \<and> c < 8) (triangles (create_box_mesh x y z wd dp th col))
   \<and> triangles (create_box_mesh x y z wd dp th col)
       = triangles (create_box_mesh x' y' z' wd' dp' th' col')
   \<and> filter (\<lambda>(a, b, c). a < 4 \<and> b < 4 \<and> c < 4) (triangles (create_box_mesh x y z wd dp th col))
       = [(0, 1, 2)]"
  by (simp add: create_box_mesh_def triangles_def Let_def)

subsection \<open>Dimension lines\<close>

lemma py_sqrt_squares: "py_sqrt (a * a + b * b) = Inr (sqrt (a * a + b * b))"
  by (simp add: py_sqrt_def not_less)

lemma sqrt_squares_zero_iff: "sqrt (a * a + b * b) = 0 \<longleftrightarrow> a = 0 \<and> b = 0"
  by (simp add: sum_squares_eq_zero_iff)

text \<open>Between distinct points the four elements of a dimension line are drawn.\<close>

lemma dimension_line_draws_four:
  assumes "x1 \<noteq> x2 \<or> y1 \<noteq> y2"
  shows "\<exists>svg'. dimension_line svg x1 y1 x2 y2 label offset = Inr svg'
           \<and> length (elements svg') = length (elements svg) + 4"
  using assms
  by (auto simp: dimension_line_def py_sqrt_squares sqrt_squares_zero_iff py_div_def Let_def
      line_def add_element_def)

text \<open>
  C8: a dimension line between coincident points returns before any division, with the
  drawing unchanged (no element is added); and for no arguments at all does
  \<open>dimension_line\<close> raise, so the guard covers every division by the length.
\<close>

theorem dimension_line_degenerate_skipped:
  "dimension_line svg x y x y label offset = Inr svg
   \<and> (\<exists>svg'. dimension_line svg x1 y1 x2 y2 label offset = Inr svg')
   \<and> dimension_line svg 5 5 5 5 label offset = Inr svg"
  by (simp add: dimension_line_def py_sqrt_squares sqrt_squares_zero_iff py_div_def Let_def)

subsection \<open>The bounding box of the orthographic views\<close>

lemma fold_min_Min:
  "fold (\<lambda>item cur. if item < cur then item else cur) xs (v::real) = Min (set (v # xs))"
proof (induction xs arbitrary: v)
  case Nil
  then show ?case by simp
next
  case (Cons a xs)
  have "Min (insert a (insert v (set xs))) = Min (insert (min a v) (set xs))"
    by (cases "set xs = {}") (simp_all add: min.assoc min.commute)
  with Cons show ?case by (simp add: min_def not_less insert_commute)
qed

lemma fold_max_Max:
  "fold (\<lambda>item cur. if item > cur then item else cur) xs (v::real) = Max (set (v # xs))"
proof (induction xs arbitrary: v)
  case Nil
  then show ?case by simp
next
  case (Cons a xs)
  have "Max (insert a (insert v (set xs))) = Max (insert (max a v) (set xs))"
    by (cases "set xs = {}") (simp_all add: max.assoc max.commute)
  with Cons show ?case by (simp add: max_def not_less insert_commute)
qed

lemma py_min_Min: "xs \<noteq> [] \<Longrightarrow> py_min (xs::real list) = Inr (Min (set xs))"
  by (cases xs) (simp_all add: py_min_def fold_min_Min)

lemma py_max_Max: "xs \<noteq> [] \<Longrightarrow> py_max (xs::real list) = Inr (Max (set xs))"
  by (cases xs) (simp_all add: py_max_def fold_max_Max)

lemma get_corners_nonempty: "get_corners P \<noteq> []"
  by (simp add: get_corners_def Let_def)

lemma all_corners_nonempty: "panels \<noteq> [] \<Longrightarrow> concat (map get_corners panels) \<noteq> []"
  by (cases panels) (simp_all add: get_corners_nonempty)

lemma set_all_corners: "set (concat (map get_corners panels)) = all_corner_set panels"
  by (simp add: all_corner_set_def)

lemma bounding_box_spec:
  fixes panels :: "real panel list"
  assumes "panels \<noteq> []"
  shows "bounding_box panels = Inr (bbox_spec panels)"
  using all_corners_nonempty [OF assms]
  by (simp add: bounding_box_def bbox_spec_def then_do_def py_min_Min py_max_Max Let_def
      set_all_corners [symmetric] del: set_concat)

text \<open>On an empty assembly \<^verbatim>\<open>min\<close> raises, after the section title has been drawn.\<close>

lemma bounding_box_empty: "bounding_box [] = Inl ValueError"
  by (simp add: bounding_box_def then_do_def py_min_def)

lemma draw_orthographic_views_empty:
  "draw_orthographic_views svg [] y scale
     = (svg\<lparr>elements := elements svg
              @ [Text 50 y ''ORTHOGRAPHIC VIEWS'' 12 ''start'' ''normal'' ''black'']\<rparr>,
        Inl ValueError)"
  by (simp add: draw_orthographic_views_def bounding_box_empty text_el_def add_element_def)

lemma fold_circles:
  "fold (\<lambda>hole self. circle self (f hole) (g hole) r fl st sw) hs s
     = s\<lparr>elements := elements s @ map (\<lambda>hole. Circle (f hole) (g hole) r fl st sw) hs\<rparr>"
  by (induction hs arbitrary: s) (simp_all add: circle_def add_element_def)

lemma top_view_panel_elements:
  "top_view_panel xs ys min_x min_y scale panel s
     = s\<lparr>elements := elements s @ top_view_elements (xs, ys) min_x min_y scale panel\<rparr>"
  by (simp add: top_view_panel_def top_view_elements_def Let_def fold_circles polygon_def
      add_element_def face_def project_top_def hole_world_def translate_def Point3D_def)

lemma front_view_panel_elements:
  "front_view_panel xs ys min_x min_z scale panel s
     = s\<lparr>elements := elements s @ [front_view_element (xs, ys) min_x min_z scale panel]\<rparr>"
  by (simp add: front_view_panel_def front_view_element_def Let_def polygon_def
      add_element_def face_def project_front_def)

lemma side_view_panel_elements:
  "side_view_panel xs ys min_y min_z scale panel s
     = s\<lparr>elements := elements s @ [side_view_element (xs, ys) min_y min_z scale panel]\<rparr>"
  by (simp add: side_view_panel_def side_view_element_def Let_def polygon_def
      add_element_def face_def project_side_def)

text \<open>A loop whose body appends elements appends the concatenation over the list.\<close>

lemma fold_appending:
  assumes "\<And>p s. f p s = s\<lparr>elements := elements s @ g p\<rparr>"
  shows "fold f ps s = s\<lparr>elements := elements s @ concat (map g ps)\<rparr>"
  by (induction ps arbitrary: s) (simp_all add: assms)

lemma fold_top_view:
  "fold (top_view_panel xs ys min_x min_y scale) panels s
     = s\<lparr>elements := elements s
           @ concat (map (top_view_elements (xs, ys) min_x min_y scale) panels)\<rparr>"
  by (rule fold_appending) (rule top_view_panel_elements)

lemma fold_front_view:
  "fold (front_view_panel xs ys min_x min_z scale) panels s
     = s\<lparr>elements := elements s
           @ map (front_view_element (xs, ys) min_x min_z scale) panels\<rparr>"
  using fold_appending [of "front_view_panel xs ys min_x min_z scale"
      "\<lambda>p. [front_view_element (xs, ys) min_x min_z scale p]" panels s]
  by (simp add: front_view_panel_elements)

lemma fold_side_view:
  "fold (side_view_panel xs ys min_y min_z scale) panels s
     = s\<lparr>elements := elements s
           @ map (side_view_element (xs, ys) min_y min_z scale) panels\<rparr>"
  using fold_appending [of "side_view_panel xs ys min_y min_z scale"
      "\<lambda>p. [side_view_element (xs, ys) min_y min_z scale p]" panels s]
  by (simp add: side_view_panel_elements)

lemma draw_orthographic_views_elements:
  assumes "bounding_box panels = Inr bb"
  shows "draw_orthographic_views svg panels y scale
           = (svg\<lparr>elements := elements svg @ orthographic_elements bb panels y scale\<rparr>,
              Inr (y + 315))"
proof -
  obtain min_x max_x min_y max_y min_z max_z
    where bb: "bb = (min_x, max_x, min_y, max_y, min_z, max_z)"
    by (cases bb) auto
  show ?thesis
    using assms
    by (simp add: draw_orthographic_views_def bb Let_def fold_top_view fold_front_view
        fold_side_view text_el_def add_element_def orthographic_elements_def view_label_def
        add.commute)
qed

text \<open>
  C9: for a non-empty assembly the bounding box computed by \<open>draw_orthographic_views\<close>
  is the elementwise minimum and maximum over the corners of all panels, and the elements
  the function adds are those of the top, front and side views drawn against this one
  box.  The witness is the two-panel assembly of the specification, whose X range is
  \<open>[0, 30]\<close>.
\<close>

theorem orthographic_views_share_bounding_box:
  fixes panels :: "real panel list"
  assumes "panels \<noteq> []"
  shows "bounding_box panels = Inr (bbox_spec panels)
     \<and> draw_orthographic_views svg panels y scale
           = (svg\<lparr>elements := elements svg
                   @ orthographic_elements (bbox_spec panels) panels y scale\<rparr>,
              Inr (y + 315))"
  using bounding_box_spec [OF assms] draw_orthographic_views_elements by simp

theorem orthographic_views_share_bounding_box_witness:
  "two_panel_assembly \<noteq> []
   \<and> bounding_box two_panel_assembly = Inr (0, 30, 0, 5, 0, 2)
   \<and> draw_orthographic_views empty_drawing two_panel_assembly 100 2
       = (empty_drawing\<lparr>elements :=
            orthographic_elements (0, 30, 0, 5, 0, 2) two_panel_assembly 100 2\<rparr>, Inr 415)"
proof -
  have ne: "two_panel_assembly \<noteq> []"
    by (simp add: two_panel_assembly_def)
  have bb: "bbox_spec two_panel_assembly = (0, 30, 0, 5, 0, 2)"
    by (simp add: bbox_spec_def all_corner_set_def get_corners_def two_panel_assembly_def
        Let_def Point3D_def)
  show ?thesis
    using ne orthographic_views_share_bounding_box [OF ne, of empty_drawing 100 2]
    by (simp add: bb empty_drawing_def)
qed

subsection \<open>The explode transform\<close>

lemma length_explode_panels: "length (explode_panels cv panels D) = length panels"
  by (simp add: explode_panels_def)

lemma nth_explode_panels:
  assumes "i < length panels"
  shows "explode_panels cv panels D ! i
           = (panels ! i)\<lparr>position :=
                translate (position (panels ! i)) 0 0 (explode_offset cv D i (length panels))\<rparr>"
  using assms by (simp add: explode_panels_def nth_enumerate_eq Let_def)

lemma translate_back:
  fixes p :: "'a::ring_1 point3d"
  shows "translate (translate p 0 0 off) 0 0 (- off) = p"
  by (simp add: translate_def Point3D_def)

text \<open>
  C6, as far as it holds: panel \<open>i\<close> of \<open>n\<close> is shifted along Z by
  \<open>D * (i - n div 2)\<close>, and in exact arithmetic (any ring: the integers, the rationals,
  the reals) exploding with \<open>D\<close> and then with \<open>- D\<close> gives back the panel list.
\<close>

theorem explode_offsets_and_exact_round_trip:
  fixes panels :: "'a::ring_1 panel list"
  shows "length (explode_panels of_int panels D) = length panels
     \<and> (\<forall>i < length panels.
           position (explode_panels of_int panels D ! i)
             = translate (position (panels ! i)) 0 0
                 (D * of_int (int i - int (length panels div 2))))
     \<and> explode_panels of_int (explode_panels of_int panels D) (- D) = panels"
proof (intro conjI allI impI)
  show "length (explode_panels of_int panels D) = length panels"
    by (simp add: length_explode_panels)
next
  fix i assume "i < length panels"
  then show "position (explode_panels of_int panels D ! i)
      = translate (position (panels ! i)) 0 0 (D * of_int (int i - int (length panels div 2)))"
    by (simp add: nth_explode_panels explode_offset_def)
next
  show "explode_panels of_int (explode_panels of_int panels D) (- D) = panels"
  proof (rule nth_equalityI)
    show "length (explode_panels of_int (explode_panels of_int panels D) (- D)) = length panels"
      by (simp add: length_explode_panels)
  next
    fix i assume "i < length (explode_panels of_int (explode_panels of_int panels D) (- D))"
    then have i: "i < length panels"
      by (simp add: length_explode_panels)
    then show "explode_panels of_int (explode_panels of_int panels D) (- D) ! i = panels ! i"
      by (simp add: nth_explode_panels length_explode_panels explode_offset_def translate_back)
  qed
qed

theorem explode_offsets_and_exact_round_trip_witness:
  "explode_panels of_int two_panel_assembly 5
     = [(two_panel_assembly ! 0)\<lparr>position := Point3D 0 0 (- 5)\<rparr>,
        (two_panel_assembly ! 1)\<lparr>position := Point3D 20 0 0\<rparr>]
   \<and> explode_panels of_int (explode_panels of_int two_panel_assembly 5) (- 5)
       = two_panel_assembly"
  using explode_offsets_and_exact_round_trip [of two_panel_assembly 5]
  by (simp add: two_panel_assembly_def explode_panels_def enumerate_eq_zip upt_rec
      explode_offset_def translate_def Point3D_def)

text \<open>
  Binary64 arithmetic as Python shows it: \<open>0.1 + 0.2\<close> is \<open>0.30000000000000004\<close>, not
  the float \<open>0.3\<close>; small integers are exact.
\<close>

lemma binary64_tenths:
  "round_f64 (1 / 10) + round_f64 (2 / 10) = Finite (5404319552844596 / 18014398509481984)"
  "round_f64 (3 / 10) = Finite (5404319552844595 / 18014398509481984)"
  "Finite 1 + Finite 2 = Finite 3"
  "f64_of_int (- 1) = Finite (- 1)"
  by code_simp+

text \<open>
  C6 as stated fails on binary64 numbers, the arithmetic the program runs on: with the
  first panel at \<open>z = 1.0\<close> and the distance \<open>- 2 ^ 53\<close> the shifted height
  \<open>1 + 2 ^ 53\<close> rounds to \<open>2 ^ 53\<close>, and exploding back with the negated distance
  leaves the panel at \<open>z = 0.0\<close>.
\<close>

theorem explode_round_trip_binary64_counterexample:
  "p_z (position (f64_panels ! 0)) = Finite 1
   \<and> p_z (position (explode_panels f64_of_int f64_panels f64_distance ! 0))
       = Finite 9007199254740992
   \<and> p_z (position (explode_panels f64_of_int
                       (explode_panels f64_of_int f64_panels f64_distance)
                       (- f64_distance) ! 0)) = Finite 0
   \<and> explode_panels f64_of_int (explode_panels f64_of_int f64_panels f64_distance)
         (- f64_distance) \<noteq> f64_panels"
  by code_simp

subsection \<open>Connection lines\<close>

lemma mean_axis0_centroid: "mean_axis0 rows = row_of (centroid (map point_of_row rows))"
  by (simp add: mean_axis0_def row_of_def centroid_def point_of_row_def column_def
      Point3D_def comp_def)

lemma connection_trace_segment:
  "connection_trace ms (a, b) = segment3d (mesh_centroid (ms ! a)) (mesh_centroid (ms ! b))"
  by (simp add: connection_trace_def segment3d_def mesh_centroid_def mean_axis0_centroid
      row_of_def Let_def)

text \<open>The centroid of a box is its centre.\<close>

lemma box_mesh_centroid:
  "mesh_centroid (create_box_mesh x y z w d t c) = Point3D (x + w / 2) (y + d / 2) (z + t / 2)"
  by (simp add: mesh_centroid_def create_box_mesh_def centroid_def point_of_row_def
      Point3D_def Let_def)

lemma corners_centroid:
  "centroid (get_corners P)
     = Point3D (p_x (position P) + width P / 2) (p_y (position P) + depth P / 2)
               (p_z (position P) + thickness P / 2)"
  by (simp add: get_corners_def centroid_def Point3D_def Let_def)

lemma add_traces_append:
  assumes "add_traces f ps fig = Inr fig'"
  shows "\<exists>ts. fig' = fig @ ts \<and> length ts = length ps
           \<and> (\<forall>i < length ps. f (ps ! i) = Inr (ts ! i))"
  using assms
proof (induction ps arbitrary: fig)
  case Nil
  then show ?case by simp
next
  case (Cons p ps)
  then obtain t where t: "f p = Inr t" and rest: "add_traces f ps (fig @ [t]) = Inr fig'"
    by (auto split: sum.splits)
  from Cons.IH [OF rest] obtain ts where ts: "fig' = (fig @ [t]) @ ts" "length ts = length ps"
    "\<forall>i < length ps. f (ps ! i) = Inr (ts ! i)" by blast
  show ?case
  proof (intro exI conjI allI impI)
    show "fig' = fig @ (t # ts)" using ts by simp
    show "length (t # ts) = length (p # ps)" using ts by simp
    fix i assume "i < length (p # ps)"
    then show "f ((p # ps) ! i) = Inr ((t # ts) ! i)"
      using t ts by (cases i) auto
  qed
qed

lemma assembled_trace_mesh: "assembled_trace m = Inr t \<Longrightarrow> \<not> is_scatter t"
  by (auto simp: assembled_trace_def is_scatter_def split: option.splits)

lemma exploded_trace_mesh: "exploded_trace m = Inr t \<Longrightarrow> \<not> is_scatter t"
  by (auto simp: exploded_trace_def is_scatter_def split: option.splits)

lemma add_traces_no_scatter:
  assumes "add_traces f ps fig = Inr fig'" and "\<And>m t. f m = Inr t \<Longrightarrow> \<not> is_scatter t"
  shows "filter is_scatter fig' = filter is_scatter fig"
proof -
  from add_traces_append [OF assms(1)] obtain ts where ts: "fig' = fig @ ts"
    "length ts = length ps" "\<forall>i < length ps. f (ps ! i) = Inr (ts ! i)" by blast
  have "\<not> is_scatter t" if "t \<in> set ts" for t
  proof -
    from that obtain i where "i < length ts" "ts ! i = t"
      by (auto simp: in_set_conv_nth)
    with ts show ?thesis using assms(2) by metis
  qed
  then have "filter is_scatter ts = []"
    by (simp add: filter_empty_conv)
  with ts show ?thesis by simp
qed

lemma viewer_connection_lines:
  assumes "create_interactive_viewer assembled exploded = Inr fig"
  shows "filter is_scatter fig
           = (if length exploded = 3
              then [segment3d (mesh_centroid (exploded ! 0)) (mesh_centroid (exploded ! 1)),
                    segment3d (mesh_centroid (exploded ! 0)) (mesh_centroid (exploded ! 2))]
              else [])"
proof -
  from assms obtain fig1 fig2
    where f1: "add_traces assembled_trace assembled [] = Inr fig1"
      and f2: "add_traces exploded_trace exploded fig1 = Inr fig2"
      and fig: "fig = (if length exploded = 3
                       then fig2 @ [connection_trace exploded (0, 1),
                                    connection_trace exploded (0, 2)]
                       else fig2)"
    by (auto simp: create_interactive_viewer_def then_do_def Let_def split: sum.splits)
  have "filter is_scatter fig1 = []"
    using add_traces_no_scatter [OF f1 assembled_trace_mesh] by simp
  then have none: "filter is_scatter fig2 = []"
    using add_traces_no_scatter [OF f2 exploded_trace_mesh] by simp
  show ?thesis
    by (simp add: fig none connection_trace_segment segment3d_def is_scatter_def)
qed

lemma draw_exploded_panel_elements:
  "\<exists>a b c. draw_exploded_panel xc yc scale panel s
     = s\<lparr>elements := elements s @ [Polygon a ''white'' ''black'' 0.5 1,
                                     Polygon b ''white'' ''black'' 0.5 1,
                                     Text (fst c) (snd c) (name panel) 8 ''start'' ''normal'' ''black'']\<rparr>"
  by (simp add: draw_exploded_panel_def polygon_def text_el_def add_element_def Let_def)
    (metis fst_conv snd_conv)

lemma draw_exploded_panel_no_line:
  "filter is_line (elements (draw_exploded_panel xc yc scale panel s))
     = filter is_line (elements s)"
  using draw_exploded_panel_elements [of xc yc scale panel s]
  by (auto simp: is_line_def)

lemma fold_draw_exploded_panel_no_line:
  "filter is_line (elements (fold (draw_exploded_panel xc yc scale) ps s))
     = filter is_line (elements s)"
  by (induction ps arbitrary: s) (simp_all add: draw_exploded_panel_no_line)

lemma draw_assembly_arrow_element:
  "draw_assembly_arrow 400 (y + 175) scale E i s
     = s\<lparr>elements := elements s
          @ [dashed_line (exploded_screen y scale (get_corners (E ! i) ! 6))
                         (exploded_screen y scale (get_corners (E ! (i + 1)) ! 4))]\<rparr>"
  by (simp add: draw_assembly_arrow_def line_def add_element_def dashed_line_def
      exploded_screen_def truthy_def Let_def)

lemma fold_draw_assembly_arrow:
  "fold (draw_assembly_arrow 400 (y + 175) scale E) idx s
     = s\<lparr>elements := elements s
          @ map (\<lambda>i. dashed_line (exploded_screen y scale (get_corners (E ! i) ! 6))
                                  (exploded_screen y scale (get_corners (E ! (i + 1)) ! 4))) idx\<rparr>"
  using fold_appending [of "draw_assembly_arrow 400 (y + 175) scale E"
      "\<lambda>i. [dashed_line (exploded_screen y scale (get_corners (E ! i) ! 6))
                         (exploded_screen y scale (get_corners (E ! (i + 1)) ! 4))]" idx s]
  by (simp add: draw_assembly_arrow_element)

lemma filter_is_line_dashed: "filter is_line (map (\<lambda>i. dashed_line (f i) (g i)) idx)
    = map (\<lambda>i. dashed_line (f i) (g i)) idx"
  by (induction idx) (simp_all add: is_line_def dashed_line_def)

lemma exploded_view_lines:
  "filter is_line (elements (fst (draw_exploded_view svg panels y scale D)))
     = filter is_line (elements svg)
       @ map (\<lambda>i. dashed_line
                    (exploded_screen y scale (get_corners (explode_panels of_int panels D ! i) ! 6))
                    (exploded_screen y scale
                       (get_corners (explode_panels of_int panels D ! (i + 1)) ! 4)))
             [0 ..< length panels - 1]"
proof -
  have c: "y + 25 + 150 = y + 175" by simp
  show ?thesis
    by (simp add: draw_exploded_view_def Let_def c fold_draw_assembly_arrow
        fold_draw_exploded_panel_no_line filter_is_line_dashed length_explode_panels
        text_el_def add_element_def is_line_def del: upt_Suc)
qed

text \<open>The screen x coordinate of the isometric projection: \<open>(x + z) * sqrt 2 / 2 * scale\<close>.\<close>

lemma to_isometric_fst: "fst (to_isometric p s) = (p_x p + p_z p) * (sqrt 2 / 2) * s"
proof -
  have c: "cos (radians 45) = sqrt 2 / 2" and s: "sin (radians 45) = sqrt 2 / 2"
    by (simp_all add: radians_def cos_45 sin_45)
  show ?thesis
    by (simp add: to_isometric_def rotate_y_def rotate_x_def Point3D_def Let_def c s
        algebra_simps)
qed

text \<open>
  C2, as far as it holds.  In the 3D viewer the dashed connection traces join the
  centroids of the exploded meshes for the fixed index pairs \<open>(0, 1)\<close> and \<open>(0, 2)\<close>, and
  exist only when there are exactly three exploded panels.  In the SVG drawing the
  dashed lines of the exploded view join corner 6 of exploded panel \<open>i\<close> to corner 4 of
  exploded panel \<open>i + 1\<close>, for every pair of neighbours in the list.
\<close>

theorem connection_lines_of_both_paths:
  "(create_interactive_viewer assembled exploded = Inr fig \<longrightarrow>
      filter is_scatter fig
        = (if length exploded = 3
           then [segment3d (mesh_centroid (exploded ! 0)) (mesh_centroid (exploded ! 1)),
                 segment3d (mesh_centroid (exploded ! 0)) (mesh_centroid (exploded ! 2))]
           else []))
   \<and> filter is_line (elements (fst (draw_exploded_view svg panels y scale D)))
       = filter is_line (elements svg)
         @ map (\<lambda>i. dashed_line
                      (exploded_screen y scale
                         (get_corners (explode_panels of_int panels D ! i) ! 6))
                      (exploded_screen y scale
                         (get_corners (explode_panels of_int panels D ! (i + 1)) ! 4)))
               [0 ..< length panels - 1]"
  using viewer_connection_lines [of assembled exploded fig]
    exploded_view_lines [of svg panels y scale D]
  by simp

theorem connection_lines_of_both_paths_witness:
  "\<exists>fig. create_interactive_viewer create_concept_4_assembled create_concept_4_exploded = Inr fig
     \<and> filter is_scatter fig
         = [Scatter3d [30, - 2.5] [5.5, 8] [24.0625, 0.125] False,
            Scatter3d [30, 62.5] [5.5, 8] [24.0625, 0.125] False]"
proof -
  have "\<exists>fig. create_interactive_viewer create_concept_4_assembled create_concept_4_exploded
          = Inr fig"
    by (simp add: create_interactive_viewer_def create_concept_4_assembled_def
        create_concept_4_exploded_def then_do_def assembled_trace_def exploded_trace_def
        named_def Let_def)
  then obtain fig
    where fig: "create_interactive_viewer create_concept_4_assembled create_concept_4_exploded
                  = Inr fig" ..
  have "filter is_scatter fig
         = [Scatter3d [30, - 2.5] [5.5, 8] [24.0625, 0.125] False,
            Scatter3d [30, 62.5] [5.5, 8] [24.0625, 0.125] False]"
    using fig connection_lines_of_both_paths
      [of create_concept_4_assembled create_concept_4_exploded fig empty_drawing "[]" 0 1 0]
    by (simp add: create_concept_4_exploded_def named_def mesh_centroid_def box_mesh_centroid
        [unfolded mesh_centroid_def] segment3d_def Point3D_def Let_def)
  with fig show ?thesis by blast
qed

text \<open>
  C2 as stated fails in the SVG drawing: for the two-panel assembly exploded by 5 the one
  dashed line starts at the projection of corner 6 of the first exploded panel, whose
  screen x differs from the screen x of the centroid of either panel.
\<close>

theorem exploded_view_line_not_from_centroid_counterexample:
  "map line_start
     (filter is_line (elements (fst (draw_exploded_view empty_drawing two_panel_assembly 0 1 5))))
     = [exploded_screen 0 1 (get_corners (explode_panels of_int two_panel_assembly 5 ! 0) ! 6)]
   \<and> fst (exploded_screen 0 1 (get_corners (explode_panels of_int two_panel_assembly 5 ! 0) ! 6))
       \<noteq> fst (exploded_screen 0 1
                (centroid (get_corners (explode_panels of_int two_panel_assembly 5 ! 0))))
   \<and> fst (exploded_screen 0 1 (get_corners (explode_panels of_int two_panel_assembly 5 ! 0) ! 6))
       \<noteq> fst (exploded_screen 0 1
                (centroid (get_corners (explode_panels of_int two_panel_assembly 5 ! 1))))"
proof -
  have E: "explode_panels of_int two_panel_assembly 5
     = [(two_panel_assembly ! 0)\<lparr>position := Point3D 0 0 (- 5)\<rparr>,
        (two_panel_assembly ! 1)\<lparr>position := Point3D 20 0 0\<rparr>]"
    by (simp add: two_panel_assembly_def explode_panels_def enumerate_eq_zip upt_rec
        explode_offset_def translate_def Point3D_def)
  have n: "length two_panel_assembly = 2"
    by (simp add: two_panel_assembly_def)
  have lines: "map line_start
     (filter is_line (elements (fst (draw_exploded_view empty_drawing two_panel_assembly 0 1 5))))
     = [exploded_screen 0 1 (get_corners (explode_panels of_int two_panel_assembly 5 ! 0) ! 6)]"
    by (simp add: exploded_view_lines n empty_drawing_def line_start_def dashed_line_def)
  have c6: "fst (exploded_screen 0 1
                   (get_corners (explode_panels of_int two_panel_assembly 5 ! 0) ! 6))
              = 400 + 7 * (sqrt 2 / 2)"
    unfolding E
    by (simp add: exploded_screen_def to_isometric_fst get_corners_def two_panel_assembly_def
        Point3D_def Let_def)
  have c0: "fst (exploded_screen 0 1
                   (centroid (get_corners (explode_panels of_int two_panel_assembly 5 ! 0))))
              = 400 + 1 * (sqrt 2 / 2)"
    unfolding E
    by (simp add: exploded_screen_def to_isometric_fst corners_centroid two_panel_assembly_def
        Point3D_def)
  have c1: "fst (exploded_screen 0 1
                   (centroid (get_corners (explode_panels of_int two_panel_assembly 5 ! 1))))
              = 400 + 26 * (sqrt 2 / 2)"
    unfolding E
    by (simp add: exploded_screen_def to_isometric_fst corners_centroid two_panel_assembly_def
        Point3D_def)
  show ?thesis
    unfolding c6 c0 c1 using lines by simp
qed

subsection \<open>The explode loop on a store\<close>

lemma those_map_Some:
  "those (map f xs) = Some ys \<longleftrightarrow> list_all2 (\<lambda>x y. f x = Some y) xs ys"
proof (induction xs arbitrary: ys)
  case Nil
  then show ?case by auto
next
  case (Cons x xs)
  show ?case
  proof (cases "f x")
    case None
    then show ?thesis by (auto simp: list_all2_Cons1)
  next
    case (Some y)
    have "those (map f (x # xs)) = Some ys
            \<longleftrightarrow> (\<exists>zs. those (map f xs) = Some zs \<and> ys = y # zs)"
      using Some by (cases "those (map f xs)") auto
    also have "\<dots> \<longleftrightarrow> (\<exists>zs. list_all2 (\<lambda>x y. f x = Some y) xs zs \<and> ys = y # zs)"
      by (simp add: Cons.IH)
    also have "\<dots> \<longleftrightarrow> list_all2 (\<lambda>x y. f x = Some y) (x # xs) ys"
      using Some by (auto simp: list_all2_Cons1)
    finally show ?thesis .
  qed
qed

lemma get_obj_append: "get_obj h a = Some ob \<Longrightarrow> get_obj (h @ ext) a = Some ob"
  by (auto simp: get_obj_def nth_append split: if_splits)

lemma read_point_append: "read_point h a = Some p \<Longrightarrow> read_point (h @ ext) a = Some p"
  by (auto simp: read_point_def get_obj_append split: option.splits obj.splits)

lemma read_points_append:
  assumes "read_points h a = Some ps"
  shows "read_points (h @ ext) a = Some ps"
proof -
  from assms obtain refs where refs: "get_obj h a = Some (ListObj refs)"
    and rd: "those (map (read_point h) refs) = Some ps"
    by (auto simp: read_points_def split: option.splits obj.splits)
  from rd have "list_all2 (\<lambda>x y. read_point h x = Some y) refs ps"
    by (simp add: those_map_Some)
  then have "list_all2 (\<lambda>x y. read_point (h @ ext) x = Some y) refs ps"
    by (rule list_all2_mono) (rule read_point_append)
  then have "those (map (read_point (h @ ext)) refs) = Some ps"
    by (simp add: those_map_Some)
  with get_obj_append [OF refs] show ?thesis
    by (simp add: read_points_def)
qed

lemma read_panel_append:
  assumes "read_panel h a = Some p"
  shows "read_panel (h @ ext) a = Some p"
proof -
  from assms obtain nm w d t pos hs mat q hl
    where ob: "get_obj h a = Some (PanelObj nm w d t pos hs mat)"
      and q: "read_point h pos = Some q"
      and hl: "read_points h hs = Some hl"
      and p: "p = \<lparr>name = nm, width = w, depth = d, thickness = t, position = q,
                   holes = hl, material = mat\<rparr>"
    by (auto simp: read_panel_def split: option.splits obj.splits)
  show ?thesis
    using get_obj_append [OF ob] read_point_append [OF q] read_points_append [OF hl] p
    by (simp add: read_panel_def)
qed

lemma read_panels_append:
  assumes "read_panels h a = Some ps"
  shows "read_panels (h @ ext) a = Some ps"
proof -
  from assms obtain refs where refs: "get_obj h a = Some (ListObj refs)"
    and rd: "those (map (read_panel h) refs) = Some ps"
    by (auto simp: read_panels_def split: option.splits obj.splits)
  from rd have "list_all2 (\<lambda>x y. read_panel h x = Some y) refs ps"
    by (simp add: those_map_Some)
  then have "list_all2 (\<lambda>x y. read_panel (h @ ext) x = Some y) refs ps"
    by (rule list_all2_mono) (rule read_panel_append)
  then have "those (map (read_panel (h @ ext)) refs) = Some ps"
    by (simp add: those_map_Some)
  with get_obj_append [OF refs] show ?thesis
    by (simp add: read_panels_def)
qed


lemma explode_loop_result:
  fixes h0 :: "'a::{plus,times,zero} heap"
  assumes "list_all2 (\<lambda>a p. read_panel h0 a = Some p) rest ps"
  shows "\<exists>refs ext.
     explode_loop cv D n i rest (length h0) (h0 @ ListObj items # news)
        = Some (h0 @ ListObj (items @ refs) # news @ ext)
     \<and> (\<forall>X ext'. list_all2 (\<lambda>a p. read_panel (h0 @ ListObj X # news @ ext @ ext') a = Some p) refs
           (map (\<lambda>(j, p). p\<lparr>position := translate (position p) 0 0 (explode_offset cv D j n)\<rparr>)
              (enumerate i ps)))
     \<and> (\<forall>X ext'. map (holes_ref (h0 @ ListObj X # news @ ext @ ext')) refs
                      = map (holes_ref h0) rest)"
  using assms
proof (induction rest arbitrary: ps i items news)
  case Nil
  then show ?case by simp
next
  case (Cons a rest)
  from Cons.prems obtain p ps' where ps: "ps = p # ps'"
    and rp: "read_panel h0 a = Some p"
    and rest: "list_all2 (\<lambda>a p. read_panel h0 a = Some p) rest ps'"
    by (auto simp: list_all2_Cons1)
  from rp obtain nm w d t pos hs mat q hl
    where ob: "get_obj h0 a = Some (PanelObj nm w d t pos hs mat)"
      and q: "get_obj h0 pos = Some (PointObj q)"
      and hl: "read_points h0 hs = Some hl"
      and p: "p = \<lparr>name = nm, width = w, depth = d, thickness = t, position = q,
                   holes = hl, material = mat\<rparr>"
    by (auto simp: read_panel_def read_point_def split: option.splits obj.splits)
  define h where "h = h0 @ ListObj items # news"
  define q' where "q' = translate q 0 0 (explode_offset cv D i n)"
  define pobj where "pobj = PanelObj nm w d t (length h) hs mat"
  define news1 where "news1 = news @ [PointObj q', pobj]"
  define b where "b = Suc (length h)"
  have oba: "get_obj h a = Some (PanelObj nm w d t pos hs mat)"
    and obq: "get_obj h pos = Some (PointObj q)"
    unfolding h_def using ob q by (simp_all add: get_obj_append)
  have lst: "get_obj ((h @ [PointObj q']) @ [pobj]) (length h0) = Some (ListObj items)"
    by (simp add: h_def get_obj_def nth_append)
  have upd: "((h @ [PointObj q']) @ [pobj])[length h0 := ListObj (items @ [b])]
               = h0 @ ListObj (items @ [b]) # news1"
    by (simp add: h_def news1_def list_update_append)
  have step: "explode_loop cv D n i (a # rest) (length h0) h
      = explode_loop cv D n (Suc i) rest (length h0) (h0 @ ListObj (items @ [b]) # news1)"
    using oba obq lst upd
    by (simp add: alloc_def Let_def q'_def [symmetric] pobj_def [symmetric] b_def)
  from Cons.IH [OF rest, of "Suc i" "items @ [b]" news1] obtain refs ext
    where res: "explode_loop cv D n (Suc i) rest (length h0) (h0 @ ListObj (items @ [b]) # news1)
                  = Some (h0 @ ListObj ((items @ [b]) @ refs) # news1 @ ext)"
      and rd: "\<And>X ext'. list_all2
                 (\<lambda>a p. read_panel (h0 @ ListObj X # news1 @ ext @ ext') a = Some p) refs
                 (map (\<lambda>(j, p). p\<lparr>position :=
                          translate (position p) 0 0 (explode_offset cv D j n)\<rparr>)
                    (enumerate (Suc i) ps'))"
      and hr: "\<And>X ext'. map (holes_ref (h0 @ ListObj X # news1 @ ext @ ext')) refs
                      = map (holes_ref h0) rest"
    by blast
  have new: "get_obj (h0 @ ListObj X # news @ ([PointObj q', pobj] @ ext) @ ext') b = Some pobj"
    "read_panel (h0 @ ListObj X # news @ ([PointObj q', pobj] @ ext) @ ext') b
               = Some (p\<lparr>position := q'\<rparr>)" for X ext'
  proof -
    let ?H = "h0 @ ListObj X # news @ ([PointObj q', pobj] @ ext) @ ext'"
    show 1: "get_obj ?H b = Some pobj"
      by (simp add: b_def h_def get_obj_def nth_append)
    have 2: "read_point ?H (length h) = Some q'"
      by (simp add: read_point_def h_def get_obj_def nth_append)
    have 3: "read_points ?H hs = Some hl"
      by (rule read_points_append [OF hl])
    show "read_panel ?H b = Some (p\<lparr>position := q'\<rparr>)"
      using 1 2 3 by (simp add: read_panel_def pobj_def p)
  qed
  show ?case
  proof (intro exI [of _ "b # refs"] exI [of _ "[PointObj q', pobj] @ ext"] conjI allI)
    show "explode_loop cv D n i (a # rest) (length h0) (h0 @ ListObj items # news)
            = Some (h0 @ ListObj (items @ b # refs) # news @ [PointObj q', pobj] @ ext)"
      using step res by (simp add: h_def news1_def)
  next
    fix X ext'
    show "list_all2
            (\<lambda>a p. read_panel (h0 @ ListObj X # news @ ([PointObj q', pobj] @ ext) @ ext') a = Some p)
            (b # refs)
            (map (\<lambda>(j, p). p\<lparr>position := translate (position p) 0 0 (explode_offset cv D j n)\<rparr>)
               (enumerate i ps))"
      using new(2) [of X ext'] rd [of X ext']
      by (simp add: ps news1_def q'_def p)
  next
    fix X ext'
    show "map (holes_ref (h0 @ ListObj X # news @ ([PointObj q', pobj] @ ext) @ ext')) (b # refs)
            = map (holes_ref h0) (a # rest)"
      using new(1) [of X ext'] hr [of X ext'] ob
      by (simp add: holes_ref_def pobj_def news1_def)
  qed
qed

lemma explode_panels_alt:
  "explode_panels cv ps D
     = map (\<lambda>(j, p). p\<lparr>position :=
              translate (position p) 0 0 (explode_offset cv D j (length ps))\<rparr>)
         (enumerate 0 ps)"
  by (auto simp: explode_panels_def Let_def)

lemma explode_panels_only_position:
  "map2 (\<lambda>e p. e\<lparr>position := position p\<rparr>) (explode_panels cv ps D) ps = ps"
  by (rule nth_equalityI) (simp_all add: length_explode_panels nth_explode_panels)

text \<open>
  C7: when the store holds a list of panels at \<open>l\<close>, the explode loop returns a new list
  object at a fresh address; every object that existed before is unchanged (the store
  only grows), so the source list and its panels read as before; the new list reads as
  the exploded panels, each of which equals its source panel once the position is put
  back (name, width, depth, thickness, holes and material are the same), and refers to
  the very hole list of its source panel.
\<close>

theorem explode_changes_only_position_and_mutates_nothing:
  fixes h :: "'a::{plus,times,zero} heap"
  assumes "read_panels h l = Some ps"
  shows "\<exists>h'. explode_store cv D l h = Some (h', length h)
       \<and> take (length h) h' = h
       \<and> read_panels h' l = Some ps
       \<and> read_panels h' (length h) = Some (explode_panels cv ps D)
       \<and> holes_refs h' (length h) = holes_refs h l
       \<and> length (explode_panels cv ps D) = length ps
       \<and> map2 (\<lambda>e p. e\<lparr>position := position p\<rparr>) (explode_panels cv ps D) ps = ps"
proof -
  from assms obtain rest where rest: "get_obj h l = Some (ListObj rest)"
    and rd: "list_all2 (\<lambda>a p. read_panel h a = Some p) rest ps"
    by (auto simp: read_panels_def those_map_Some split: option.splits obj.splits)
  have len: "length rest = length ps"
    using rd by (rule list_all2_lengthD)
  from explode_loop_result [OF rd, of cv D "length rest" 0 "[]" "[]"] obtain refs ext
    where res: "explode_loop cv D (length rest) 0 rest (length h) (h @ [ListObj []])
                  = Some (h @ ListObj refs # ext)"
      and new: "\<And>X ext'. list_all2 (\<lambda>a p. read_panel (h @ ListObj X # ext @ ext') a = Some p) refs
           (map (\<lambda>(j, p). p\<lparr>position :=
                   translate (position p) 0 0 (explode_offset cv D j (length rest))\<rparr>)
              (enumerate 0 ps))"
      and hr: "\<And>X ext'. map (holes_ref (h @ ListObj X # ext @ ext')) refs = map (holes_ref h) rest"
    by auto
  let ?h' = "h @ ListObj refs # ext"
  have 1: "explode_store cv D l h = Some (?h', length h)"
    using rest res by (simp add: explode_store_def alloc_def)
  have 2: "take (length h) ?h' = h"
    by simp
  have 3: "read_panels ?h' l = Some ps"
    by (rule read_panels_append [OF assms])
  have at: "get_obj ?h' (length h) = Some (ListObj refs)"
    by (simp add: get_obj_def)
  have 4: "read_panels ?h' (length h) = Some (explode_panels cv ps D)"
    using new [of refs "[]"] at
    by (simp add: read_panels_def those_map_Some explode_panels_alt len)
  have 5: "holes_refs ?h' (length h) = holes_refs h l"
    using hr [of refs "[]"] at rest by (simp add: holes_refs_def)
  show ?thesis
    using 1 2 3 4 5 explode_panels_only_position [of cv ps D]
    by (intro exI [of _ ?h']) (simp add: length_explode_panels)
qed

theorem explode_changes_only_position_and_mutates_nothing_witness:
  "read_panels example_store 7 = Some example_panels
   \<and> (\<exists>h'. explode_store of_int 5 7 example_store = Some (h', 8)
          \<and> take 8 h' = example_store
          \<and> read_panels h' 7 = Some example_panels
          \<and> read_panels h' 8
              = Some [(example_panels ! 0)\<lparr>position := Point3D 0 0 (- 5)\<rparr>, example_panels ! 1]
          \<and> holes_refs h' 8 = [Some 2, Some 4])"
proof -
  have rd: "read_panels example_store 7 = Some example_panels"
    by (simp add: read_panels_def read_panel_def read_points_def read_point_def get_obj_def
        example_store_def example_panels_def)
  have ex: "explode_panels of_int example_panels 5
              = [(example_panels ! 0)\<lparr>position := Point3D 0 0 (- 5)\<rparr>, example_panels ! 1]"
    by (simp add: example_panels_def explode_panels_def enumerate_eq_zip upt_rec
        explode_offset_def translate_def Point3D_def)
  have hr: "holes_refs example_store 7 = [Some 2, Some 4]"
    by (simp add: holes_refs_def holes_ref_def get_obj_def example_store_def)
  have len: "length example_store = 8"
    by (simp add: example_store_def)
  have "\<exists>h'. explode_store of_int 5 7 example_store = Some (h', 8)
          \<and> take 8 h' = example_store
          \<and> read_panels h' 7 = Some example_panels
          \<and> read_panels h' 8
              = Some [(example_panels ! 0)\<lparr>position := Point3D 0 0 (- 5)\<rparr>, example_panels ! 1]
          \<and> holes_refs h' 8 = [Some 2, Some 4]"
    using explode_changes_only_position_and_mutates_nothing [OF rd, of of_int 5] unfolding ex hr len by blast
  with rd show ?thesis by simp
qed

end
